theory Spec2Isabelle
  imports Main
begin

section \<open>JavaScript values\<close>

text \<open>
  A value of TypeScript type \<open>number\<close> that may be \<open>undefined\<close> at run time (an array
  destructuring past the end of the array). The numbers themselves are IEEE doubles;
  they stay abstract (the type variable), and their operations are parameters, so that
  nothing proved here depends on an arithmetic law that doubles do not have.
\<close>

datatype 'a js = Undefined | Num 'a

text \<open>What a call can throw: a \<open>TypeError\<close>, or whatever the \<open>getPrototypeOf\<close> trap of a
  \<open>Proxy\<close> throws.\<close>

datatype error = TypeError | TrapError

text \<open>
  What the modules under verification take from outside: the arithmetic of
  \<open>number\<close> (\<open>+\<close>, unary \<open>-\<close>, \<open>/\<close>, \<open>NaN\<close>, the literals \<open>1\<close> and \<open>100\<close>) and the function
  \<open>split\<close> imported from \<open>util/string.js\<close>, which is not part of the sources at hand.
\<close>

record 'a Runtime =
  add :: "'a \<Rightarrow> 'a \<Rightarrow> 'a"
  neg :: "'a \<Rightarrow> 'a"
  divide_num :: "'a \<Rightarrow> 'a \<Rightarrow> 'a"
  NaN :: "'a"
  literal_1 :: "'a"
  literal_100 :: "'a"
  split :: "string \<Rightarrow> string list"

text \<open>\<open>x + y\<close> and \<open>-x\<close> on operands that are numbers or \<open>undefined\<close>:
  \<open>undefined\<close> converts to \<open>NaN\<close>.\<close>

definition js_plus :: "'a Runtime \<Rightarrow> 'a js \<Rightarrow> 'a js \<Rightarrow> 'a" where
  "js_plus rt x y =
     (case x of
        Undefined \<Rightarrow> (case y of Undefined \<Rightarrow> NaN rt | Num b \<Rightarrow> add rt (NaN rt) b)
      | Num a \<Rightarrow> (case y of Undefined \<Rightarrow> add rt a (NaN rt) | Num b \<Rightarrow> add rt a b))"

definition js_uminus :: "'a Runtime \<Rightarrow> 'a js \<Rightarrow> 'a" where
  "js_uminus rt x = (case x of Undefined \<Rightarrow> NaN rt | Num a \<Rightarrow> neg rt a)"

text \<open>Truthiness of a \<open>string | null | undefined\<close>: \<open>None\<close> is \<open>null\<close> or
  \<open>undefined\<close>, and the empty string is falsy too.\<close>

definition truthy :: "string option \<Rightarrow> bool" where
  "truthy x = (case x of None \<Rightarrow> False | Some s \<Rightarrow> s \<noteq> [])"

text \<open>\<open>a || b\<close> on such values, and \<open>a || 'literal'\<close>.\<close>

definition js_or :: "string option \<Rightarrow> string option \<Rightarrow> string option" where
  "js_or a b = (if truthy a then a else b)"

definition js_or_string :: "string option \<Rightarrow> string \<Rightarrow> string" where
  "js_or_string a s = (case a of None \<Rightarrow> s | Some t \<Rightarrow> if t \<noteq> [] then t else s)"

text \<open>Array destructuring \<open>[h, d, w] = xs\<close>: the element at the position, or
  \<open>undefined\<close> past the end.\<close>

definition element_at :: "'a list \<Rightarrow> nat \<Rightarrow> 'a js" where
  "element_at xs i = (if i < length xs then Num (xs ! i) else Undefined)"

section \<open>The DOM behind the adaptor\<close>

text \<open>
  The template parameter \<open>N\<close> is the type of DOM nodes. Nodes are objects with
  identity: a node is an address in a store of elements, and an operation that changes
  the DOM returns the new store.
\<close>

type_synonym N = nat

record element =
  kind :: string
  attributes :: "(string \<times> string) list"
  style :: "string \<rightharpoonup> string"
  childNodes :: "N list"
  parentNode :: "N option"

type_synonym DOM = "element list"

type_synonym StyleList = "string \<rightharpoonup> string"

text \<open>The \<open>def\<close> argument of \<open>this.html(type, def, content)\<close>: the object literals
  \<open>{}\<close> and \<open>{variant: ..., style: ...}\<close>.\<close>

record NodeDef =
  def_variant :: "string option"
  def_style :: "StyleList option"

definition empty_def :: NodeDef where
  "empty_def = \<lparr>def_variant = None, def_style = None\<rparr>"

record 'a UnknownBBox =
  ub_w :: "'a js"
  ub_h :: "'a js"
  ub_d :: "'a js"

text \<open>A \<open>BBox\<close> has more fields than the three that \<open>computeBBox\<close> assigns; they are
  the extension part of the record.\<close>

record 'a BBox =
  bbox_w :: "'a js"
  bbox_h :: "'a js"
  bbox_d :: "'a js"

record 'a ExtendedMetrics =
  scale :: 'a
  family :: "string option"

text \<open>\<open>this.adaptor\<close>: the DOM adaptor. Its implementation is not part of the sources at
  hand; its methods are parameters. Readers take the store, \<open>clone\<close> returns the new
  node with the store that holds it.\<close>

record Adaptor =
  getAttribute :: "DOM \<Rightarrow> N \<Rightarrow> string \<Rightarrow> string option"
  clone :: "DOM \<Rightarrow> N \<Rightarrow> N \<times> DOM"
  parent :: "DOM \<Rightarrow> N \<Rightarrow> N option"
  fontFamily :: "DOM \<Rightarrow> N option \<Rightarrow> string option"

text \<open>\<open>this.jax\<close>: the output jax, with \<open>options.htmlHDW\<close>, \<open>math.metrics\<close>,
  \<open>math.start.node\<close> and the methods \<open>measureXMLnode\<close> and \<open>fixed\<close>.\<close>

record 'a Jax =
  htmlHDW :: string
  metrics :: "'a ExtendedMetrics"
  start_node :: N
  measureXMLnode :: "DOM \<Rightarrow> N \<Rightarrow> 'a UnknownBBox \<times> DOM"
  fixed :: "'a \<Rightarrow> nat \<Rightarrow> string"

text \<open>\<open>this.parent\<close>: the parent wrapper, of which \<open>variant\<close> and
  \<open>styles?.styles?.['font-family']\<close> are read.\<close>

record Styles =
  styles :: "StyleList option"

record ParentWrapper =
  variant :: string
  parent_styles :: "Styles option"

text \<open>
  \<open>this\<close>: a wrapper of the class that \<open>CommonHtmlNodeMixin(Base)\<close> returns. \<open>node_html\<close>
  is \<open>(this.node as HtmlNode).getHTML()\<close>; \<open>html\<close>, \<open>em\<close> and \<open>length2em\<close> are the methods
  inherited from \<open>Base\<close>, which is the mixin's argument.
\<close>

record 'a Wrapper =
  runtime :: "'a Runtime"
  adaptor :: Adaptor
  jax :: "'a Jax"
  node_html :: N
  parent_wrapper :: ParentWrapper
  html :: "DOM \<Rightarrow> string \<Rightarrow> NodeDef \<Rightarrow> N list \<Rightarrow> N \<times> DOM"
  em :: "'a \<Rightarrow> string"
  length2em :: "string \<Rightarrow> 'a"

section \<open>The CommonHtmlNode mixin\<close>

text \<open>\<open>getHDW(html, use, force = use)\<close>. The third argument is optional.\<close>

definition getHDW ::
  "('a, 'b) Wrapper_scheme \<Rightarrow> DOM \<Rightarrow> N \<Rightarrow> string \<Rightarrow> string option \<Rightarrow> string option \<times> DOM" where
  "getHDW this doc html_arg use force_arg =
     (let force = (case force_arg of None \<Rightarrow> use | Some f \<Rightarrow> f);
          option = htmlHDW (jax this);
          hdw = getAttribute (adaptor this) doc html_arg ''data-mjx-hdw''
      in ((if truthy hdw \<and> (option = use \<or> option = force) then hdw else None), doc))"

text \<open>\<open>splitHDW(hdw)\<close>: \<open>const [h, d, w] = split(hdw).map(x => this.length2em(x || '0'))\<close>.\<close>

definition splitHDW :: "('a, 'b) Wrapper_scheme \<Rightarrow> string \<Rightarrow> 'a UnknownBBox" where
  "splitHDW this hdw =
     (let xs = map (\<lambda>x. length2em this (if x \<noteq> [] then x else ''0''))
                 (split (runtime this) hdw)
      in \<lparr>ub_w = element_at xs 2, ub_h = element_at xs 0, ub_d = element_at xs 1\<rparr>)"

text \<open>
  \<open>this.em(v)\<close> for a \<open>v\<close> that may be \<open>undefined\<close>: \<open>em\<close> formats a number, and a call
  with \<open>undefined\<close> in its place throws a \<open>TypeError\<close> (\<open>em\<close> calls a method of its
  argument). The results of \<open>h + d\<close> and \<open>-d\<close> are numbers, \<open>w\<close> is what the destructuring
  left.
\<close>

definition call_em :: "('a, 'b) Wrapper_scheme \<Rightarrow> 'a js \<Rightarrow> error + string" where
  "call_em this v = (case v of Undefined \<Rightarrow> Inl TypeError | Num x \<Rightarrow> Inr (em this x))"

text \<open>
  \<open>addHDW(html, styles)\<close>: the node returned or the error thrown, the \<open>styles\<close> object
  after the call, and the DOM after the call. \<open>!hdw\<close> holds for \<open>null\<close> and for the empty
  string. The assignments are made in the order of the source, so a call that throws
  leaves the earlier ones in \<open>styles\<close>.
\<close>

definition addHDW ::
  "('a, 'b) Wrapper_scheme \<Rightarrow> DOM \<Rightarrow> N \<Rightarrow> StyleList \<Rightarrow> (error + N) \<times> StyleList \<times> DOM" where
  "addHDW this doc html_arg styles_arg =
     (let (hdw, doc1) = getHDW this doc html_arg ''force'' None
      in case hdw of
           None \<Rightarrow> (Inr html_arg, styles_arg, doc1)
         | Some s \<Rightarrow>
             (if s = [] then (Inr html_arg, styles_arg, doc1)
              else
                (let b = splitHDW this s;
                     styles1 = styles_arg(''height'' \<mapsto>
                       em this (js_plus (runtime this) (ub_h b) (ub_d b)))
                 in (case call_em this (ub_w b) of
                       Inl e \<Rightarrow> (Inl e, styles1, doc1)
                     | Inr width \<Rightarrow>
                         (let styles2 = styles1(''width'' \<mapsto> width);
                              styles3 = styles2(''vertical-align'' \<mapsto>
                                em this (js_uminus (runtime this) (ub_d b)));
                              styles4 = styles3(''position'' \<mapsto> ''relative'');
                              (holder, doc2) =
                                html this doc1 ''mjx-html-holder'' empty_def [html_arg]
                          in (Inr holder, styles4, doc2))))))"

text \<open>\<open>this.parent.styles?.styles?.['font-family']\<close>.\<close>

definition parent_font_family :: "ParentWrapper \<Rightarrow> string option" where
  "parent_font_family p =
     (case parent_styles p of
        None \<Rightarrow> None
      | Some s \<Rightarrow> (case styles s of None \<Rightarrow> None | Some l \<Rightarrow> l ''font-family''))"

text \<open>The statements of \<open>getHTML\<close> up to the \<open>return\<close>: the arguments \<open>def\<close> and
  \<open>content\<close> of \<open>this.html('mjx-html', def, content)\<close>, or the error that \<open>addHDW\<close>
  throws, and the DOM at that point.\<close>

definition getHTML_call ::
  "('a, 'b) Wrapper_scheme \<Rightarrow> DOM \<Rightarrow> (error + NodeDef \<times> N list) \<times> DOM" where
  "getHTML_call this doc =
     (let (copy, doc1) = clone (adaptor this) doc (node_html this);
          (added, styles1, doc2) = addHDW this doc1 copy Map.empty
      in case added of
           Inl e \<Rightarrow> (Inl e, doc2)
         | Inr html1 \<Rightarrow>
            (let m = metrics (jax this);
                 styles2 =
                   (if scale m \<noteq> literal_1 (runtime this)
                    then styles1(''font-size'' \<mapsto>
                           fixed (jax this)
                             (divide_num (runtime this) (literal_100 (runtime this)) (scale m)) 1
                             @ ''%'')
                    else styles1);
                 p = parent (adaptor this) doc2 (start_node (jax this));
                 styles3 = styles2(''font-family'' \<mapsto>
                   js_or_string
                     (js_or (js_or (parent_font_family (parent_wrapper this)) (family m))
                        (fontFamily (adaptor this) doc2 p))
                     ''initial'')
             in (Inr (\<lparr>def_variant = Some (variant (parent_wrapper this)),
                       def_style = Some styles3\<rparr>,
                      [html1]),
                 doc2)))"

text \<open>\<open>getHTML()\<close>: the new \<open>mjx-html\<close> node or the error thrown, and the DOM after the
  call.\<close>

definition getHTML :: "('a, 'b) Wrapper_scheme \<Rightarrow> DOM \<Rightarrow> (error + N) \<times> DOM" where
  "getHTML this doc =
     (let (call, doc2) = getHTML_call this doc
      in case call of
           Inl e \<Rightarrow> (Inl e, doc2)
         | Inr (df, content) \<Rightarrow>
             (let (node, doc3) = html this doc2 ''mjx-html'' df content in (Inr node, doc3)))"

text \<open>\<open>computeBBox(bbox, _recompute = false)\<close>: the error thrown, if any, the \<open>bbox\<close>
  object and the DOM after the call. \<open>getHTML\<close> is called in the measuring branch only;
  if it throws, nothing is assigned.\<close>

definition computeBBox ::
  "('a, 'b) Wrapper_scheme \<Rightarrow> DOM \<Rightarrow> ('a, 'c) BBox_scheme \<Rightarrow>
     error option \<times> ('a, 'c) BBox_scheme \<times> DOM" where
  "computeBBox this doc bbox =
     (let (hdw, doc1) = getHDW this doc (node_html this) ''use'' (Some ''force'');
          measure = (case getHTML this doc1 of
                       (Inl e, doc') \<Rightarrow> (Inl e, doc')
                     | (Inr measured, doc') \<Rightarrow>
                         (let (b, doc'') = measureXMLnode (jax this) doc' measured
                          in (Inr b, doc'')));
          (hdw_values, doc2) =
            (case hdw of
               None \<Rightarrow> measure
             | Some s \<Rightarrow> if s \<noteq> [] then (Inr (splitHDW this s), doc1) else measure)
      in case hdw_values of
           Inl e \<Rightarrow> (Some e, bbox, doc2)
         | Inr b \<Rightarrow> (None, bbox\<lparr>bbox_w := ub_w b, bbox_h := ub_h b, bbox_d := ub_d b\<rparr>, doc2))"

text \<open>\<open>getStyles() {}\<close>, \<open>getScale() {}\<close>, \<open>getVariant() {}\<close>: empty bodies. The result
  is \<open>undefined\<close>, paired with the wrapper after the call.\<close>

definition getStyles :: "('a, 'b) Wrapper_scheme \<Rightarrow> 'c js \<times> ('a, 'b) Wrapper_scheme" where
  "getStyles this = (Undefined, this)"

definition getScale :: "('a, 'b) Wrapper_scheme \<Rightarrow> 'c js \<times> ('a, 'b) Wrapper_scheme" where
  "getScale this = (Undefined, this)"

definition getVariant :: "('a, 'b) Wrapper_scheme \<Rightarrow> 'c js \<times> ('a, 'b) Wrapper_scheme" where
  "getVariant this = (Undefined, this)"

section \<open>The HTML handler\<close>

text \<open>
  The argument of \<open>HandlesDocument\<close> has type \<open>any\<close>. What the method looks at is
  whether the value is a string and which constructors it is an instance of. An object
  whose prototype chain can be read is given by the constructors on the chain; a
  primitive value other than a string is an instance of nothing; and there are objects
  whose prototype cannot be read, because reading it throws: a revoked \<open>Proxy\<close>
  (a \<open>TypeError\<close>), or a \<open>Proxy\<close> with a \<open>getPrototypeOf\<close> trap that throws.
\<close>

datatype 'c any = String string | Primitive | Object "'c list" | Unreadable error

text \<open>
  The module's constants. \<open>parser.parseFromString(s, 'text/html')\<close> returns a value or
  throws (\<open>None\<close>). \<open>DOCUMENT\<close> is \<open>document.constructor\<close>; \<open>HTMLELEMENT\<close> and
  \<open>FRAGMENT\<close> are read from members that \<open>interface DOMWindow\<close> declares optional
  (\<open>HTMLElement?\<close>, \<open>DocumentFragment?\<close>), so each is a constructor or \<open>undefined\<close>.
\<close>

record 'c Module =
  parseFromString :: "string \<Rightarrow> 'c any option"
  DOCUMENT :: 'c
  HTMLELEMENT :: "'c option"
  FRAGMENT :: "'c option"

text \<open>\<open>v instanceof C\<close>: a \<open>TypeError\<close> when \<open>C\<close> is not callable, whatever \<open>v\<close> is;
  otherwise false for a primitive value, and for an object the walk along its prototype
  chain, which throws what reading the prototype throws.\<close>

definition instanceof :: "'c any \<Rightarrow> 'c option \<Rightarrow> error + bool" where
  "instanceof v C =
     (case C of
        None \<Rightarrow> Inl TypeError
      | Some c \<Rightarrow>
          (case v of
             Object cs \<Rightarrow> Inr (c \<in> set cs)
           | Unreadable e \<Rightarrow> Inl e
           | _ \<Rightarrow> Inr False))"

text \<open>The first statement of \<open>HandlesDocument\<close>: a string is replaced by what the parser
  makes of it, unless the parser throws.\<close>

definition parsed :: "'c Module \<Rightarrow> 'c any \<Rightarrow> 'c any" where
  "parsed m document =
     (case document of
        String s \<Rightarrow> (case parseFromString m s of Some v \<Rightarrow> v | None \<Rightarrow> document)
      | _ \<Rightarrow> document)"

definition HandlesDocument :: "'c Module \<Rightarrow> 'c any \<Rightarrow> error + bool" where
  "HandlesDocument m document =
     (let document1 = parsed m document
      in case instanceof document1 (Some (DOCUMENT m)) of
           Inl e \<Rightarrow> Inl e
         | Inr True \<Rightarrow> Inr True
         | Inr False \<Rightarrow>
             (case instanceof document1 (HTMLELEMENT m) of
                Inl e \<Rightarrow> Inl e
              | Inr True \<Rightarrow> Inr True
              | Inr False \<Rightarrow>
                  (case instanceof document1 (FRAGMENT m) of
                     Inl e \<Rightarrow> Inl e
                   | Inr True \<Rightarrow> Inr True
                   | Inr False \<Rightarrow> Inr False)))"

section \<open>The MML registry\<close>

text \<open>The classes that the registry literal lists, in its order.\<close>

datatype MmlNodeClass =
    MmlMath | MmlMi | MmlMn | MmlMo | MmlMtext
  | MmlMspace | MmlMs | MmlMrow | MmlInferredMrow | MmlMfrac
  | MmlMsqrt | MmlMroot | MmlMstyle | MmlMerror | MmlMpadded
  | MmlMphantom | MmlMfenced | MmlMenclose | MmlMaction | MmlMsub
  | MmlMsup | MmlMsubsup | MmlMunder | MmlMover | MmlMunderover
  | MmlMmultiscripts | MmlMprescripts | MmlNone | MmlMtable | MmlMlabeledtr
  | MmlMtr | MmlMtd | MmlMaligngroup | MmlMalignmark | MmlSemantics
  | MmlAnnotation | MmlAnnotationXML | TeXAtom | TextNode | XMLNode

text \<open>
  An object literal with computed keys: the properties are defined from left to right,
  and a later property with a key already present replaces the earlier value.
\<close>

definition object_literal :: "(string \<times> 'v) list \<Rightarrow> string \<rightharpoonup> 'v" where
  "object_literal ps = foldl (\<lambda>obj (key, v). obj(key \<mapsto> v)) Map.empty ps"

text \<open>
  \<open>MML = {[MmlMath.prototype.kind]: MmlMath, ...}\<close>. The classes are defined in
  \<open>MmlNodes/*.js\<close>, which are not part of the sources at hand; \<open>k C\<close> stands for
  \<open>C.prototype.kind\<close>.
\<close>

definition MML_literal :: "(MmlNodeClass \<Rightarrow> string) \<Rightarrow> (string \<times> MmlNodeClass) list" where
  "MML_literal k =
     [(k MmlMath, MmlMath),

      (k MmlMi, MmlMi),
      (k MmlMn, MmlMn),
      (k MmlMo, MmlMo),
      (k MmlMtext, MmlMtext),
      (k MmlMspace, MmlMspace),
      (k MmlMs, MmlMs),

      (k MmlMrow, MmlMrow),
      (k MmlInferredMrow, MmlInferredMrow),
      (k MmlMfrac, MmlMfrac),
      (k MmlMsqrt, MmlMsqrt),
      (k MmlMroot, MmlMroot),
      (k MmlMstyle, MmlMstyle),
      (k MmlMerror, MmlMerror),
      (k MmlMpadded, MmlMpadded),
      (k MmlMphantom, MmlMphantom),
      (k MmlMfenced, MmlMfenced),
      (k MmlMenclose, MmlMenclose),

      (k MmlMaction, MmlMaction),

      (k MmlMsub, MmlMsub),
      (k MmlMsup, MmlMsup),
      (k MmlMsubsup, MmlMsubsup),
      (k MmlMunder, MmlMunder),
      (k MmlMover, MmlMover),
      (k MmlMunderover, MmlMunderover),
      (k MmlMmultiscripts, MmlMmultiscripts),
      (k MmlMprescripts, MmlMprescripts),
      (k MmlNone, MmlNone),

      (k MmlMtable, MmlMtable),
      (k MmlMlabeledtr, MmlMlabeledtr),
      (k MmlMtr, MmlMtr),
      (k MmlMtd, MmlMtd),
      (k MmlMaligngroup, MmlMaligngroup),
      (k MmlMalignmark, MmlMalignmark),

      (k MmlSemantics, MmlSemantics),
      (k MmlAnnotation, MmlAnnotation),
      (k MmlAnnotationXML, MmlAnnotationXML),

      (k TeXAtom, TeXAtom),

      (k TextNode, TextNode),
      (k XMLNode, XMLNode)]"

definition MML :: "(MmlNodeClass \<Rightarrow> string) \<Rightarrow> string \<rightharpoonup> MmlNodeClass" where
  "MML k = object_literal (MML_literal k)"

section \<open>What the adaptor is relied on for\<close>

text \<open>
  \<open>adaptor.clone\<close> and \<open>this.html\<close> are parameters; the one claim about aliasing needs to
  know which nodes they may touch. \<open>clone_frame\<close>: the copy is a node that was not in the
  store, it has no parent, and every node of the store is as it was. \<open>html_frame\<close>: the
  new element was not in the store and has no parent, and a node of the store is as it
  was unless it is one of the children handed over or the parent that one of them is
  taken from.
\<close>

definition clone_frame :: "(DOM \<Rightarrow> N \<Rightarrow> N \<times> DOM) \<Rightarrow> bool" where
  "clone_frame cl =
     (\<forall>doc n c doc'. cl doc n = (c, doc') \<longrightarrow>
        length doc \<le> c \<and> c < length doc' \<and> parentNode (doc' ! c) = None \<and>
        take (length doc) doc' = doc)"

definition html_frame :: "(DOM \<Rightarrow> string \<Rightarrow> NodeDef \<Rightarrow> N list \<Rightarrow> N \<times> DOM) \<Rightarrow> bool" where
  "html_frame h =
     (\<forall>doc k df cs n doc'. h doc k df cs = (n, doc') \<longrightarrow>
        length doc \<le> n \<and> n < length doc' \<and> length doc \<le> length doc' \<and>
        parentNode (doc' ! n) = None \<and>
        (\<forall>m < length doc.
           m \<notin> set cs \<and> (\<forall>c \<in> set cs. c < length doc \<longrightarrow> parentNode (doc ! c) \<noteq> Some m)
           \<longrightarrow> doc' ! m = doc ! m))"

section \<open>An environment to run the model in\<close>

text \<open>
  The parameters above are instantiated here, so that the model can be evaluated: a small
  DOM over the store (deep copy, element creation that moves the children under the new
  element), numbers kept symbolic (a number is the text of the expression that computes
  it), and \<open>split\<close> cutting a string at white space.
\<close>

text \<open>
  Modelled from the spec: \<open>split\<close> of \<open>util/string.js\<close>, which is not part of the sources
  at hand. The components of a string are its maximal runs of characters other than
  white space; a string without any has the one component \<open>''\<close>.
\<close>

definition is_space :: "char \<Rightarrow> bool" where
  "is_space c = (c \<in> set [CHR '' '', CHR 0x09, CHR 0x0A, CHR 0x0B, CHR 0x0C, CHR 0x0D])"

fun components :: "string \<Rightarrow> string \<Rightarrow> string list" where
  "components cur [] = (if cur = [] then [] else [cur])"
| "components cur (c # cs) =
     (if is_space c then (if cur = [] then components [] cs else cur # components [] cs)
      else components (cur @ [c]) cs)"

definition split_whitespace :: "string \<Rightarrow> string list" where
  "split_whitespace x = (case components [] x of [] \<Rightarrow> [[]] | ws \<Rightarrow> ws)"

text \<open>The element behind a handle; a handle that is not in the store stands for an
  empty element.\<close>

definition element_of :: "DOM \<Rightarrow> N \<Rightarrow> element" where
  "element_of doc n =
     (if n < length doc then doc ! n
      else \<lparr>kind = [], attributes = [], style = Map.empty, childNodes = [], parentNode = None\<rparr>)"

text \<open>Setting the parent of a node.\<close>

definition adopt :: "N \<Rightarrow> DOM \<Rightarrow> N \<Rightarrow> DOM" where
  "adopt p doc x = (if x < length doc then doc[x := (doc ! x)\<lparr>parentNode := Some p\<rparr>] else doc)"

text \<open>A deep copy: the children are copied first, the copy of the node is put after
  them, and the copied children get it as their parent. The depth of the recursion is
  bounded by the first argument; the number of nodes of the store is enough for any
  tree in it.\<close>

fun copy_tree :: "nat \<Rightarrow> DOM \<Rightarrow> N \<Rightarrow> N \<times> DOM" where
  "copy_tree 0 doc n =
     (length doc, doc @ [(element_of doc n)\<lparr>childNodes := [], parentNode := None\<rparr>])"
| "copy_tree (Suc fuel) doc n =
     (let (cs, doc1) =
            foldl (\<lambda>(cs, d) x. let (c, d') = copy_tree fuel d x in (cs @ [c], d'))
              ([], doc) (childNodes (element_of doc n));
          doc2 = doc1 @ [(element_of doc n)\<lparr>childNodes := cs, parentNode := None\<rparr>]
      in (length doc1, foldl (adopt (length doc1)) doc2 cs))"

definition sample_clone :: "DOM \<Rightarrow> N \<Rightarrow> N \<times> DOM" where
  "sample_clone doc n = copy_tree (length doc) doc n"

text \<open>Taking a node out of its parent's list of children, and appending it to the
  children of another node.\<close>

definition detach :: "DOM \<Rightarrow> N \<Rightarrow> DOM" where
  "detach doc x =
     (case parentNode (element_of doc x) of
        None \<Rightarrow> doc
      | Some p \<Rightarrow>
          if p < length doc
          then doc[p := (doc ! p)\<lparr>childNodes := removeAll x (childNodes (doc ! p))\<rparr>]
          else doc)"

definition append_child :: "N \<Rightarrow> DOM \<Rightarrow> N \<Rightarrow> DOM" where
  "append_child p doc x =
     (let doc1 = adopt p (detach doc x) x
      in if p < length doc1
         then doc1[p := (doc1 ! p)\<lparr>childNodes := childNodes (doc1 ! p) @ [x]\<rparr>]
         else doc1)"

text \<open>Element creation: the new element is put at the end of the store, and the children
  that are nodes of the store are appended to it one after the other.\<close>

definition sample_html :: "DOM \<Rightarrow> string \<Rightarrow> NodeDef \<Rightarrow> N list \<Rightarrow> N \<times> DOM" where
  "sample_html doc k df cs =
     (let e = \<lparr>kind = k,
                attributes = (case def_variant df of None \<Rightarrow> [] | Some v \<Rightarrow> [(''variant'', v)]),
                style = (case def_style df of None \<Rightarrow> Map.empty | Some s \<Rightarrow> s),
                childNodes = [], parentNode = None\<rparr>
      in (length doc, foldl (append_child (length doc)) (doc @ [e]) (filter (\<lambda>x. x < length doc) cs)))"

definition sample_getAttribute :: "DOM \<Rightarrow> N \<Rightarrow> string \<Rightarrow> string option" where
  "sample_getAttribute doc n name = map_of (attributes (element_of doc n)) name"

definition sample_parent :: "DOM \<Rightarrow> N \<Rightarrow> N option" where
  "sample_parent doc n = parentNode (element_of doc n)"

definition sample_fontFamily :: "DOM \<Rightarrow> N option \<Rightarrow> string option" where
  "sample_fontFamily doc p =
     (case p of None \<Rightarrow> None | Some n \<Rightarrow> style (element_of doc n) ''font-family'')"

definition sample_adaptor :: Adaptor where
  "sample_adaptor =
     \<lparr>getAttribute = sample_getAttribute, clone = sample_clone, parent = sample_parent,
      fontFamily = sample_fontFamily\<rparr>"

definition sample_runtime :: "string Runtime" where
  "sample_runtime =
     \<lparr>add = (\<lambda>a b. a @ '' + '' @ b), neg = (\<lambda>a. ''-'' @ a),
      divide_num = (\<lambda>a b. a @ '' / '' @ b), NaN = ''NaN'',
      literal_1 = ''1'', literal_100 = ''100'', split = split_whitespace\<rparr>"

definition sample_em :: "string \<Rightarrow> string" where
  "sample_em x = ''em('' @ x @ '')''"

definition sample_measureXMLnode :: "DOM \<Rightarrow> N \<Rightarrow> string UnknownBBox \<times> DOM" where
  "sample_measureXMLnode doc n =
     (\<lparr>ub_w = Num ''measured w'', ub_h = Num ''measured h'', ub_d = Num ''measured d''\<rparr>, doc)"

text \<open>A wrapper with the option \<open>htmlHDW\<close> and the scale of the metrics as given. Its
  \<open>HtmlNode\<close> holds node 1 of the document below, and the math starts at node 0.\<close>

definition sample_wrapper :: "string \<Rightarrow> string \<Rightarrow> string Wrapper" where
  "sample_wrapper option sc =
     \<lparr>runtime = sample_runtime, adaptor = sample_adaptor,
      jax = \<lparr>htmlHDW = option, metrics = \<lparr>scale = sc, family = None\<rparr>, start_node = 0,
             measureXMLnode = sample_measureXMLnode,
             fixed = (\<lambda>x n. ''fixed('' @ x @ '')'')\<rparr>,
      node_html = 1,
      parent_wrapper = \<lparr>variant = ''normal'', parent_styles = None\<rparr>,
      html = sample_html, em = sample_em, length2em = (\<lambda>x. x)\<rparr>"

text \<open>\<open><mjx-container/>\<close> and \<open><span data-mjx-hdw=".8em .2em 3em"><b/></span>\<close>.\<close>

definition sample_doc :: DOM where
  "sample_doc =
     [\<lparr>kind = ''mjx-container'', attributes = [], style = Map.empty, childNodes = [], parentNode = None\<rparr>,
      \<lparr>kind = ''span'', attributes = [(''data-mjx-hdw'', ''.8em .2em 3em'')], style = Map.empty,
         childNodes = [2], parentNode = None\<rparr>,
      \<lparr>kind = ''b'', attributes = [], style = Map.empty, childNodes = [], parentNode = Some 1\<rparr>]"

text \<open>The same document with \<open>data-mjx-hdw="1em 2em"\<close> on the span.\<close>

definition short_doc :: DOM where
  "short_doc = sample_doc[1 := (sample_doc ! 1)\<lparr>attributes := [(''data-mjx-hdw'', ''1em 2em'')]\<rparr>]"

text \<open>A window that has \<open>HTMLElement\<close> and \<open>DocumentFragment\<close>, and a parser that throws
  on the empty string and returns a document for every other string; constructors go by
  their names.\<close>

definition sample_module :: "string Module" where
  "sample_module =
     \<lparr>parseFromString =
        (\<lambda>s. if s = [] then None else Some (Object [''HTMLDocument'', ''Document'', ''Node'', ''Object''])),
      DOCUMENT = ''HTMLDocument'', HTMLELEMENT = Some ''HTMLElement'',
      FRAGMENT = Some ''DocumentFragment''\<rparr>"

text \<open>
  Modelled from the spec: the \<open>kind\<close> of each class of \<open>MmlNodes/*.js\<close>, which are not part
  of the sources at hand. The registry maps MathML element kinds (\<open>mi\<close>, \<open>mo\<close>, \<open>mfrac\<close>,
  \<open>mtable\<close>, etc.) to the classes; the kind of a class is the name of its element.
\<close>

fun element_kind :: "MmlNodeClass \<Rightarrow> string" where
  "element_kind MmlMath = ''math''"
| "element_kind MmlMi = ''mi''"
| "element_kind MmlMn = ''mn''"
| "element_kind MmlMo = ''mo''"
| "element_kind MmlMtext = ''mtext''"
| "element_kind MmlMspace = ''mspace''"
| "element_kind MmlMs = ''ms''"
| "element_kind MmlMrow = ''mrow''"
| "element_kind MmlInferredMrow = ''inferredMrow''"
| "element_kind MmlMfrac = ''mfrac''"
| "element_kind MmlMsqrt = ''msqrt''"
| "element_kind MmlMroot = ''mroot''"
| "element_kind MmlMstyle = ''mstyle''"
| "element_kind MmlMerror = ''merror''"
| "element_kind MmlMpadded = ''mpadded''"
| "element_kind MmlMphantom = ''mphantom''"
| "element_kind MmlMfenced = ''mfenced''"
| "element_kind MmlMenclose = ''menclose''"
| "element_kind MmlMaction = ''maction''"
| "element_kind MmlMsub = ''msub''"
| "element_kind MmlMsup = ''msup''"
| "element_kind MmlMsubsup = ''msubsup''"
| "element_kind MmlMunder = ''munder''"
| "element_kind MmlMover = ''mover''"
| "element_kind MmlMunderover = ''munderover''"
| "element_kind MmlMmultiscripts = ''mmultiscripts''"
| "element_kind MmlMprescripts = ''mprescripts''"
| "element_kind MmlNone = ''none''"
| "element_kind MmlMtable = ''mtable''"
| "element_kind MmlMlabeledtr = ''mlabeledtr''"
| "element_kind MmlMtr = ''mtr''"
| "element_kind MmlMtd = ''mtd''"
| "element_kind MmlMaligngroup = ''maligngroup''"
| "element_kind MmlMalignmark = ''malignmark''"
| "element_kind MmlSemantics = ''semantics''"
| "element_kind MmlAnnotation = ''annotation''"
| "element_kind MmlAnnotationXML = ''annotation-xml''"
| "element_kind TeXAtom = ''TeXAtom''"
| "element_kind TextNode = ''text''"
| "element_kind XMLNode = ''XML''"

section \<open>Lemmas\<close>

subsection \<open>What the two contracts give\<close>

lemma clone_frameD:
  assumes "clone_frame cl" and "cl doc n = (c, doc')"
  shows "length doc \<le> c" "c < length doc'" "parentNode (doc' ! c) = None"
    "take (length doc) doc' = doc"
  using assms unfolding clone_frame_def by blast+

lemma html_frameD:
  assumes "html_frame h" and "h doc k df cs = (n, doc')"
  shows "length doc \<le> n" "n < length doc'" "length doc \<le> length doc'"
    "parentNode (doc' ! n) = None"
    "\<And>m. m < length doc \<Longrightarrow> m \<notin> set cs \<Longrightarrow>
       (\<And>c. c \<in> set cs \<Longrightarrow> c < length doc \<Longrightarrow> parentNode (doc ! c) \<noteq> Some m) \<Longrightarrow>
       doc' ! m = doc ! m"
  using assms unfolding html_frame_def by blast+

lemma frame_trans:
  assumes "take (length a) b = a" and "length b \<le> length c" and "\<And>m. m < length a \<Longrightarrow> c ! m = b ! m"
  shows "take (length a) c = a"
proof -
  have la: "length a \<le> length b"
  proof -
    have "length (take (length a) b) = length a" using assms(1) by simp
    then show ?thesis by simp
  qed
  have "take (length a) c = take (length a) b"
    using la assms(2,3) by (intro nth_take_lemma) auto
  with assms(1) show ?thesis by simp
qed

lemma html_frame_single:
  assumes "html_frame h" and "h d k df [c] = (n, d')" and "take (length a) d = a"
    and "length a \<le> c" and "c < length d" and "parentNode (d ! c) = None"
  shows "take (length a) d' = a \<and> length a \<le> n \<and> n < length d' \<and> parentNode (d' ! n) = None"
proof -
  note f = html_frameD [OF assms(1,2)]
  have la: "length a \<le> length d"
    using assms(4,5) by simp
  have "d' ! m = d ! m" if "m < length a" for m
    using that f(5) [of m] assms(4,6) la by simp
  with frame_trans [OF assms(3) f(3)] have "take (length a) d' = a" by simp
  with f(1,2,4) la show ?thesis by simp
qed

lemma addHDW_cases:
  assumes "addHDW this doc n st = (r, st', doc')"
  shows "(r = Inr n \<and> st' = st \<and> doc' = doc) \<or> (\<exists>e. r = Inl e \<and> doc' = doc) \<or>
    (\<exists>holder. r = Inr holder \<and> html this doc ''mjx-html-holder'' empty_def [n] = (holder, doc'))"
  using assms
  by (auto simp: addHDW_def getHDW_def Let_def split: option.splits if_splits prod.splits sum.splits)

subsection \<open>The environment meets the contracts\<close>

lemma length_adopt [simp]: "length (adopt p doc x) = length doc"
  by (simp add: adopt_def)

lemma length_fold_adopt [simp]: "length (foldl (adopt p) doc xs) = length doc"
  by (induction xs arbitrary: doc) simp_all

lemma nth_fold_adopt: "i \<notin> set xs \<Longrightarrow> foldl (adopt p) doc xs ! i = doc ! i"
  by (induction xs arbitrary: doc) (simp_all add: adopt_def)

lemma take_fold_adopt:
  "\<forall>x \<in> set xs. k \<le> x \<Longrightarrow> take k (foldl (adopt p) doc xs) = take k doc"
  by (induction xs arbitrary: doc) (simp_all add: adopt_def)

lemma copy_children_frame:
  assumes ih: "\<And>doc n c doc'. copy_tree fuel doc n = (c, doc') \<Longrightarrow>
      length doc \<le> c \<and> c < length doc' \<and> take (length doc) doc' = doc"
    and "foldl (\<lambda>(cs, d) x. let (c, d') = copy_tree fuel d x in (cs @ [c], d')) (cs0, d0) xs = (cs, d1)"
    and "take (length a) d0 = a" and "\<forall>c \<in> set cs0. length a \<le> c \<and> c < length d0"
  shows "take (length a) d1 = a \<and> (\<forall>c \<in> set cs. length a \<le> c \<and> c < length d1)"
  using assms(2-)
proof (induction xs arbitrary: cs0 d0)
  case Nil
  then show ?case by simp
next
  case (Cons x xs)
  obtain c d' where step: "copy_tree fuel d0 x = (c, d')"
    by (cases "copy_tree fuel d0 x")
  note f = ih [OF step]
  have la: "length a \<le> length d0"
  proof -
    have "length (take (length a) d0) = length a" using Cons.prems(2) by simp
    then show ?thesis by simp
  qed
  have t: "take (length a) d' = a"
  proof -
    have "take (length a) (take (length d0) d') = take (length a) d0"
      using f by simp
    then show ?thesis using la Cons.prems(2) by (simp add: min_absorb1)
  qed
  have b: "\<forall>y \<in> set (cs0 @ [c]). length a \<le> y \<and> y < length d'"
    using Cons.prems(3) f la by auto
  from Cons.prems(1) step
  have "foldl (\<lambda>(cs, d) x. let (c, d') = copy_tree fuel d x in (cs @ [c], d')) (cs0 @ [c], d') xs = (cs, d1)"
    by simp
  from Cons.IH [OF this t b] show ?case .
qed

lemma copy_tree_frame:
  "copy_tree fuel doc n = (c, doc') \<Longrightarrow>
     length doc \<le> c \<and> c < length doc' \<and> take (length doc) doc' = doc \<and>
     parentNode (doc' ! c) = None"
proof (induction fuel arbitrary: doc n c doc')
  case 0
  then show ?case by (auto simp: nth_append)
next
  case (Suc fuel)
  obtain cs doc1 where ch:
    "foldl (\<lambda>(cs, d) x. let (c, d') = copy_tree fuel d x in (cs @ [c], d'))
       ([], doc) (childNodes (element_of doc n)) = (cs, doc1)"
    by (cases "foldl (\<lambda>(cs, d) x. let (c, d') = copy_tree fuel d x in (cs @ [c], d'))
       ([], doc) (childNodes (element_of doc n))")
  have ih: "\<And>doc n c doc'. copy_tree fuel doc n = (c, doc') \<Longrightarrow>
      length doc \<le> c \<and> c < length doc' \<and> take (length doc) doc' = doc"
    using Suc.IH by blast
  have fr: "take (length doc) doc1 = doc \<and> (\<forall>c \<in> set cs. length doc \<le> c \<and> c < length doc1)"
    by (rule copy_children_frame [OF ih ch]) simp_all
  have la: "length doc \<le> length doc1"
  proof -
    have "length (take (length doc) doc1) = length doc" using fr by simp
    then show ?thesis by simp
  qed
  let ?e = "(element_of doc n)\<lparr>childNodes := cs, parentNode := None\<rparr>"
  from Suc.prems ch have c: "c = length doc1" and d: "doc' = foldl (adopt (length doc1)) (doc1 @ [?e]) cs"
    by (auto simp: Let_def)
  have notin: "c \<notin> set cs" using fr c by auto
  have "doc' ! c = ?e"
    using nth_fold_adopt [OF notin] c d by simp
  moreover have "take (length doc) doc' = doc"
    using take_fold_adopt [of cs "length doc"] fr la d by simp
  ultimately show ?case using c d la by simp
qed

lemma sample_clone_frame: "clone_frame sample_clone"
  unfolding clone_frame_def sample_clone_def using copy_tree_frame by blast

lemma length_detach [simp]: "length (detach doc x) = length doc"
  by (simp add: detach_def split: option.splits)

lemma length_append_child [simp]: "length (append_child p doc x) = length doc"
  by (simp add: append_child_def Let_def)

lemma parentNode_detach [simp]: "parentNode (detach doc x ! y) = parentNode (doc ! y)"
  by (cases "y < length doc") (auto simp: detach_def nth_list_update split: option.splits)

lemma parentNode_append_child:
  "y < length doc \<Longrightarrow>
     parentNode (append_child p doc x ! y) = (if y = x then Some p else parentNode (doc ! y))"
  by (auto simp: append_child_def adopt_def Let_def nth_list_update)

lemma nth_append_child:
  assumes "x < length doc" and "m \<noteq> x" and "m \<noteq> p" and "parentNode (doc ! x) \<noteq> Some m"
  shows "append_child p doc x ! m = doc ! m"
  using assms
  by (auto simp: append_child_def adopt_def detach_def element_of_def Let_def nth_list_update
      split: option.splits)

lemma append_children_frame:
  assumes "length d = Suc (length doc)" and "parentNode (d ! length doc) = None"
    and "\<forall>x < length doc. parentNode (d ! x) = parentNode (doc ! x) \<or>
           parentNode (d ! x) = Some (length doc)"
    and "\<forall>x \<in> set xs. x < length doc"
    and "\<forall>m < length doc. m \<notin> D \<and> (\<forall>c \<in> D. parentNode (doc ! c) \<noteq> Some m) \<longrightarrow> d ! m = doc ! m"
  shows "length (foldl (append_child (length doc)) d xs) = Suc (length doc) \<and>
     parentNode (foldl (append_child (length doc)) d xs ! length doc) = None \<and>
     (\<forall>m < length doc. m \<notin> D \<union> set xs \<and> (\<forall>c \<in> D \<union> set xs. parentNode (doc ! c) \<noteq> Some m)
        \<longrightarrow> foldl (append_child (length doc)) d xs ! m = doc ! m)"
  using assms
proof (induction xs arbitrary: d D)
  case Nil
  then show ?case by simp
next
  case (Cons x xs)
  let ?n = "length doc"
  let ?d = "append_child ?n d x"
  have x: "x < ?n" using Cons.prems(4) by simp
  have 1: "length ?d = Suc ?n" using Cons.prems(1) by simp
  have 2: "parentNode (?d ! ?n) = None"
    using parentNode_append_child [of ?n d ?n x] Cons.prems(1,2) x by simp
  have 3: "\<forall>y < ?n. parentNode (?d ! y) = parentNode (doc ! y) \<or> parentNode (?d ! y) = Some ?n"
    using Cons.prems(1,3) by (simp add: parentNode_append_child)
  have 4: "\<forall>y \<in> set xs. y < ?n" using Cons.prems(4) by simp
  have 5: "\<forall>m < ?n. m \<notin> insert x D \<and> (\<forall>c \<in> insert x D. parentNode (doc ! c) \<noteq> Some m)
      \<longrightarrow> ?d ! m = doc ! m"
  proof (intro allI impI)
    fix m assume m: "m < ?n" and h: "m \<notin> insert x D \<and> (\<forall>c \<in> insert x D. parentNode (doc ! c) \<noteq> Some m)"
    have "parentNode (d ! x) \<noteq> Some m"
      using Cons.prems(3) x h m by auto
    then have "?d ! m = d ! m"
      using nth_append_child [of x d m ?n] x m h Cons.prems(1) by simp
    with Cons.prems(5) m h show "?d ! m = doc ! m" by simp
  qed
  from Cons.IH [OF 1 2 3 4 5] show ?case by simp
qed

lemma sample_html_frame: "html_frame sample_html"
  unfolding html_frame_def
proof (intro allI impI)
  fix doc k df cs n doc'
  assume a: "sample_html doc k df cs = (n, doc')"
  let ?e = "\<lparr>kind = k,
                attributes = (case def_variant df of None \<Rightarrow> [] | Some v \<Rightarrow> [(''variant'', v)]),
                style = (case def_style df of None \<Rightarrow> Map.empty | Some s \<Rightarrow> s),
                childNodes = [], parentNode = None\<rparr>"
  let ?xs = "filter (\<lambda>x. x < length doc) cs"
  from a have n: "n = length doc" and d: "doc' = foldl (append_child (length doc)) (doc @ [?e]) ?xs"
    by (auto simp: sample_html_def Let_def)
  have "length doc' = Suc (length doc) \<and> parentNode (doc' ! length doc) = None \<and>
     (\<forall>m < length doc. m \<notin> {} \<union> set ?xs \<and> (\<forall>c \<in> {} \<union> set ?xs. parentNode (doc ! c) \<noteq> Some m)
        \<longrightarrow> doc' ! m = doc ! m)"
    unfolding d by (rule append_children_frame) (simp_all add: nth_append)
  then show "length doc \<le> n \<and> n < length doc' \<and> length doc \<le> length doc' \<and>
        parentNode (doc' ! n) = None \<and>
        (\<forall>m < length doc.
           m \<notin> set cs \<and> (\<forall>c \<in> set cs. c < length doc \<longrightarrow> parentNode (doc ! c) \<noteq> Some m)
           \<longrightarrow> doc' ! m = doc ! m)"
    using n by auto
qed

subsection \<open>Object literals\<close>

lemma foldl_update:
  "foldl (\<lambda>obj (key, v). obj(key \<mapsto> v)) m ps = m ++ map_of (rev ps)"
  by (induction ps arbitrary: m) (auto simp: map_add_def fun_eq_iff split: option.splits)

lemma object_literal_map_of: "object_literal ps = map_of (rev ps)"
  by (simp add: object_literal_def foldl_update)

lemma object_literal_entry:
  assumes "distinct (map fst ps)" and "(key, v) \<in> set ps"
  shows "object_literal ps key = Some v"
  using assms by (simp add: object_literal_map_of distinct_rev rev_map [symmetric])

lemma MML_literal_lists: "(k C, C) \<in> set (MML_literal k)"
  by (cases C) (simp_all add: MML_literal_def)

lemma MML_literal_keys: "map fst (MML_literal k) = map k (map snd (MML_literal k))"
  by (simp add: MML_literal_def)

lemma MML_literal_classes: "distinct (map snd (MML_literal k))"
  by (simp add: MML_literal_def)

text \<open>Every class is found under its kind only if the kinds differ from class to
  class.\<close>

lemma MML_registry_only_if:
  assumes "\<forall>C. MML k (k C) = Some C"
  shows "distinct (map fst (MML_literal k))"
proof -
  have "inj k"
  proof (rule injI)
    fix x y assume "k x = k y"
    then have "MML k (k x) = MML k (k y)" by simp
    with assms show "x = y" by simp
  qed
  then have "inj_on k (set (map snd (MML_literal k)))"
    by (rule inj_on_subset) simp
  with MML_literal_classes [of k] have "distinct (map k (map snd (MML_literal k)))"
    by (simp only: distinct_map)
  then show ?thesis by (simp only: MML_literal_keys)
qed


subsection \<open>splitHDW by the number of components\<close>

lemma splitHDW_three:
  assumes "split (runtime this) hdw = a # b # c # rest"
  shows "splitHDW this hdw =
    \<lparr>ub_w = Num (length2em this (if c \<noteq> [] then c else ''0'')),
     ub_h = Num (length2em this (if a \<noteq> [] then a else ''0'')),
     ub_d = Num (length2em this (if b \<noteq> [] then b else ''0''))\<rparr>"
  using assms by (simp add: splitHDW_def element_at_def)

lemma splitHDW_missing:
  assumes "length (split (runtime this) hdw) < 3"
  shows "ub_w (splitHDW this hdw) = Undefined"
  using assms by (simp add: splitHDW_def element_at_def Let_def)

lemma splitHDW_w:
  assumes "ub_w (splitHDW this hdw) = Num w"
  shows "\<exists>h d. splitHDW this hdw = \<lparr>ub_w = Num w, ub_h = Num h, ub_d = Num d\<rparr>"
  using assms by (auto simp: splitHDW_def element_at_def Let_def split: if_splits)

subsection \<open>Where addHDW and getHTML throw\<close>

text \<open>With the option \<open>'force'\<close> and a non-empty attribute that leaves \<open>w\<close> undefined,
  \<open>addHDW\<close> throws at \<open>this.em(w)\<close>: \<open>height\<close> is written, nothing else is, and no
  element is created. \<open>getHTML\<close> throws with it.\<close>

lemma addHDW_throws:
  assumes "htmlHDW (jax this) = ''force''"
    and "getAttribute (adaptor this) doc n ''data-mjx-hdw'' = Some s" and "s \<noteq> []"
    and "ub_w (splitHDW this s) = Undefined"
  shows "addHDW this doc n st =
    (Inl TypeError,
     st(''height'' \<mapsto> em this (js_plus (runtime this) (ub_h (splitHDW this s)) (ub_d (splitHDW this s)))),
     doc)"
  using assms by (simp add: addHDW_def getHDW_def Let_def truthy_def call_em_def)

lemma addHDW_returns:
  assumes "htmlHDW (jax this) \<noteq> ''force'' \<or>
    (\<forall>s. getAttribute (adaptor this) doc n ''data-mjx-hdw'' = Some s \<and> s \<noteq> [] \<longrightarrow>
       ub_w (splitHDW this s) \<noteq> Undefined)"
  shows "\<exists>r. fst (addHDW this doc n st) = Inr r"
  using assms
  by (auto simp: addHDW_def getHDW_def Let_def truthy_def call_em_def
      split: option.splits prod.splits js.splits)

lemma getHTML_throws:
  assumes "clone (adaptor this) doc (node_html this) = (copy, doc1)"
    and "htmlHDW (jax this) = ''force''"
    and "getAttribute (adaptor this) doc1 copy ''data-mjx-hdw'' = Some s" and "s \<noteq> []"
    and "ub_w (splitHDW this s) = Undefined"
  shows "getHTML this doc = (Inl TypeError, doc1)"
  using assms(1) addHDW_throws [OF assms(2-5), of Map.empty]
  by (simp add: getHTML_def getHTML_call_def)

subsection \<open>The environment evaluated\<close>

lemma sample_attr:
  "getAttribute (adaptor (sample_wrapper opt sc)) sample_doc 1 ''data-mjx-hdw'' = Some ''.8em .2em 3em''"
  by (simp add: sample_wrapper_def sample_adaptor_def sample_getAttribute_def sample_doc_def
      element_of_def)

lemma split_sample: "split_whitespace ''.8em .2em 3em'' = [''.8em'', ''.2em'', ''3em'']"
  by (simp add: split_whitespace_def is_space_def)

lemma splitHDW_sample:
  "splitHDW (sample_wrapper opt sc) ''.8em .2em 3em'' =
     \<lparr>ub_w = Num ''3em'', ub_h = Num ''.8em'', ub_d = Num ''.2em''\<rparr>"
  by (simp add: splitHDW_def sample_wrapper_def sample_runtime_def split_sample element_at_def)

lemma sample_clone_1:
  "sample_clone sample_doc 1 =
     (4, sample_doc @
       [\<lparr>kind = ''b'', attributes = [], style = Map.empty, childNodes = [], parentNode = Some 4\<rparr>,
        \<lparr>kind = ''span'', attributes = [(''data-mjx-hdw'', ''.8em .2em 3em'')], style = Map.empty,
           childNodes = [3], parentNode = None\<rparr>])"
  by (simp add: sample_clone_def sample_doc_def element_of_def adopt_def Let_def)

lemma sample_wrapper_fields:
  "adaptor (sample_wrapper opt sc) = sample_adaptor"
  "html (sample_wrapper opt sc) = sample_html"
  "node_html (sample_wrapper opt sc) = 1"
  "htmlHDW (jax (sample_wrapper opt sc)) = opt"
  "scale (metrics (jax (sample_wrapper opt sc))) = sc"
  "clone sample_adaptor = sample_clone"
  "getAttribute sample_adaptor = sample_getAttribute"
  by (simp_all add: sample_wrapper_def sample_adaptor_def)

lemma sample_copy_attr:
  "getAttribute (adaptor (sample_wrapper opt sc)) (snd (sample_clone sample_doc 1)) 4 ''data-mjx-hdw'' =
     Some ''.8em .2em 3em''"
  unfolding sample_clone_1
  by (simp add: sample_wrapper_fields sample_getAttribute_def element_of_def
      sample_doc_def nth_append)

text \<open>A run of \<open>getHTML\<close>: the copy of the span and of its child (nodes 4 and 3), the
  holder around the copy, the \<open>mjx-html\<close> element around the holder, and its styles.\<close>

lemma getHTML_sample:
  "fst (getHTML (sample_wrapper ''force'' ''2'') sample_doc) = Inr 6 \<and>
   map (\<lambda>e. (kind e, childNodes e, parentNode e)) (snd (getHTML (sample_wrapper ''force'' ''2'') sample_doc)) =
     [(''mjx-container'', [], None), (''span'', [2], None), (''b'', [], Some 1),
      (''b'', [], Some 4), (''span'', [3], Some 5), (''mjx-html-holder'', [4], Some 6),
      (''mjx-html'', [5], None)] \<and>
   map (style (snd (getHTML (sample_wrapper ''force'' ''2'') sample_doc) ! 6))
     [''height'', ''width'', ''vertical-align'', ''position'', ''font-size'', ''font-family''] =
     [Some ''em(.8em + .2em)'', Some ''em(3em)'', Some ''em(-.2em)'', Some ''relative'',
      Some ''fixed(100 / 2)%'', Some ''initial'']"
  unfolding getHTML_def getHTML_call_def addHDW_def getHDW_def sample_wrapper_fields sample_clone_1
  apply (simp add: Let_def sample_getAttribute_def element_of_def nth_append sample_doc_def
      truthy_def sample_html_def splitHDW_sample append_child_def adopt_def detach_def
      js_plus_def js_uminus_def js_or_def js_or_string_def parent_font_family_def call_em_def
      split: prod.splits)
  apply (simp add: sample_wrapper_def sample_runtime_def sample_em_def sample_adaptor_def
      sample_parent_def sample_fontFamily_def element_of_def)
  done

text \<open>\<open>addHDW\<close> on the span with two components: the call throws with \<open>height\<close> written
  and the document as it was.\<close>

lemma addHDW_short:
  "addHDW (sample_wrapper ''force'' ''1'') short_doc 1 Map.empty =
     (Inl TypeError, [''height'' \<mapsto> ''em(1em + 2em)''], short_doc)"
proof -
  have a: "getAttribute (adaptor (sample_wrapper ''force'' ''1'')) short_doc 1 ''data-mjx-hdw'' = Some ''1em 2em''"
    by (simp add: sample_wrapper_fields sample_getAttribute_def element_of_def short_doc_def
        sample_doc_def)
  have s: "splitHDW (sample_wrapper ''force'' ''1'') ''1em 2em'' =
     \<lparr>ub_w = Undefined, ub_h = Num ''1em'', ub_d = Num ''2em''\<rparr>"
    by (simp add: splitHDW_def sample_wrapper_def sample_runtime_def split_whitespace_def
        is_space_def element_at_def)
  have "addHDW (sample_wrapper ''force'' ''1'') short_doc 1 Map.empty =
    (Inl TypeError,
     [''height'' \<mapsto> em (sample_wrapper ''force'' ''1'')
        (js_plus (runtime (sample_wrapper ''force'' ''1'')) (Num ''1em'') (Num ''2em''))],
     short_doc)"
    using addHDW_throws [OF _ a, of Map.empty] by (simp add: s sample_wrapper_fields)
  then show ?thesis
    by (simp add: js_plus_def sample_wrapper_def sample_runtime_def sample_em_def)
qed

text \<open>Creating an element around a node of the document changes that node: it gets the
  new element as its parent. This is what \<open>getHTML\<close> keeps away from the stored HTML by
  handing over a copy.\<close>

lemma sample_html_moves_child:
  "parentNode (sample_doc ! 2) = Some 1 \<and>
   parentNode (snd (sample_html sample_doc ''mjx-html'' empty_def [2]) ! 2) = Some 3 \<and>
   childNodes (snd (sample_html sample_doc ''mjx-html'' empty_def [2]) ! 1) = []"
  by (simp add: sample_html_def sample_doc_def append_child_def adopt_def detach_def
      element_of_def Let_def)

section \<open>The claims\<close>

text \<open>
  C1. \<open>computeBBox\<close> takes \<open>h\<close>, \<open>d\<close> and \<open>w\<close> of the bbox from the \<open>data-mjx-hdw\<close>
  attribute of the node's HTML, through \<open>splitHDW\<close>, whenever the attribute is there, is
  not empty, and the option \<open>htmlHDW\<close> is \<open>'use'\<close> or \<open>'force'\<close>; the DOM is not touched
  then. In every other case the three values are those that \<open>jax.measureXMLnode\<close>
  returns for \<open>this.getHTML()\<close> (and what \<open>getHTML\<close> throws is thrown on). In that case
  \<open>getHTML\<close> does return when the copy carries the attribute of the original.
\<close>

theorem computeBBox_source:
  "(\<forall>s. getAttribute (adaptor this) doc (node_html this) ''data-mjx-hdw'' = Some s \<and> s \<noteq> [] \<and>
        (htmlHDW (jax this) = ''use'' \<or> htmlHDW (jax this) = ''force'') \<longrightarrow>
      computeBBox this doc bbox =
        (None,
         bbox\<lparr>bbox_w := ub_w (splitHDW this s), bbox_h := ub_h (splitHDW this s),
              bbox_d := ub_d (splitHDW this s)\<rparr>, doc)) \<and>
   (\<not> (\<exists>s. getAttribute (adaptor this) doc (node_html this) ''data-mjx-hdw'' = Some s \<and> s \<noteq> [] \<and>
        (htmlHDW (jax this) = ''use'' \<or> htmlHDW (jax this) = ''force'')) \<longrightarrow>
      computeBBox this doc bbox =
        (case getHTML this doc of
           (Inl e, doc1) \<Rightarrow> (Some e, bbox, doc1)
         | (Inr n, doc1) \<Rightarrow>
             (let (b, doc2) = measureXMLnode (jax this) doc1 n
              in (None, bbox\<lparr>bbox_w := ub_w b, bbox_h := ub_h b, bbox_d := ub_d b\<rparr>, doc2))) \<and>
      (getAttribute (adaptor this) (snd (clone (adaptor this) doc (node_html this)))
           (fst (clone (adaptor this) doc (node_html this))) ''data-mjx-hdw'' =
         getAttribute (adaptor this) doc (node_html this) ''data-mjx-hdw'' \<longrightarrow>
       (\<exists>n. fst (getHTML this doc) = Inr n)))"
proof (intro conjI allI impI)
  fix s
  assume "getAttribute (adaptor this) doc (node_html this) ''data-mjx-hdw'' = Some s \<and> s \<noteq> [] \<and>
        (htmlHDW (jax this) = ''use'' \<or> htmlHDW (jax this) = ''force'')"
  then show "computeBBox this doc bbox =
        (None,
         bbox\<lparr>bbox_w := ub_w (splitHDW this s), bbox_h := ub_h (splitHDW this s),
              bbox_d := ub_d (splitHDW this s)\<rparr>, doc)"
    by (auto simp: computeBBox_def getHDW_def Let_def truthy_def)
next
  assume n: "\<not> (\<exists>s. getAttribute (adaptor this) doc (node_html this) ''data-mjx-hdw'' = Some s \<and> s \<noteq> [] \<and>
        (htmlHDW (jax this) = ''use'' \<or> htmlHDW (jax this) = ''force''))"
  then show "computeBBox this doc bbox =
        (case getHTML this doc of
           (Inl e, doc1) \<Rightarrow> (Some e, bbox, doc1)
         | (Inr n, doc1) \<Rightarrow>
             (let (b, doc2) = measureXMLnode (jax this) doc1 n
              in (None, bbox\<lparr>bbox_w := ub_w b, bbox_h := ub_h b, bbox_d := ub_d b\<rparr>, doc2)))"
    by (auto simp: computeBBox_def getHDW_def Let_def truthy_def
        split: prod.splits option.splits sum.splits)
  assume k: "getAttribute (adaptor this) (snd (clone (adaptor this) doc (node_html this)))
           (fst (clone (adaptor this) doc (node_html this))) ''data-mjx-hdw'' =
         getAttribute (adaptor this) doc (node_html this) ''data-mjx-hdw''"
  obtain copy doc1 where cl: "clone (adaptor this) doc (node_html this) = (copy, doc1)"
    by (cases "clone (adaptor this) doc (node_html this)")
  have "htmlHDW (jax this) \<noteq> ''force'' \<or>
    (\<forall>s. getAttribute (adaptor this) doc1 copy ''data-mjx-hdw'' = Some s \<and> s \<noteq> [] \<longrightarrow>
       ub_w (splitHDW this s) \<noteq> Undefined)"
    using n k cl by auto
  from addHDW_returns [OF this, of Map.empty] obtain r where
    "fst (addHDW this doc1 copy Map.empty) = Inr r" by blast
  then show "\<exists>n. fst (getHTML this doc) = Inr n"
    using cl by (auto simp: getHTML_def getHTML_call_def Let_def split: prod.splits)
qed

theorem computeBBox_source_witness:
  "getAttribute (adaptor (sample_wrapper ''use'' ''1'')) sample_doc
     (node_html (sample_wrapper ''use'' ''1'')) ''data-mjx-hdw'' = Some ''.8em .2em 3em'' \<and>
   computeBBox (sample_wrapper ''use'' ''1'') sample_doc
     \<lparr>bbox_w = Undefined, bbox_h = Undefined, bbox_d = Undefined\<rparr> =
     (None, \<lparr>bbox_w = Num ''3em'', bbox_h = Num ''.8em'', bbox_d = Num ''.2em''\<rparr>, sample_doc) \<and>
   fst (computeBBox (sample_wrapper ''ignore'' ''1'') sample_doc
     \<lparr>bbox_w = Undefined, bbox_h = Undefined, bbox_d = Undefined\<rparr>) = None \<and>
   fst (snd (computeBBox (sample_wrapper ''ignore'' ''1'') sample_doc
     \<lparr>bbox_w = Undefined, bbox_h = Undefined, bbox_d = Undefined\<rparr>)) =
     \<lparr>bbox_w = Num ''measured w'', bbox_h = Num ''measured h'', bbox_d = Num ''measured d''\<rparr>"
proof -
  let ?b = "\<lparr>bbox_w = Undefined, bbox_h = Undefined, bbox_d = Undefined\<rparr> :: string BBox"
  have m: "measureXMLnode (jax (sample_wrapper opt sc)) = sample_measureXMLnode" for opt sc
    by (simp add: sample_wrapper_def)
  from computeBBox_source [of "sample_wrapper ''use'' ''1''" sample_doc ?b]
  have 1: "computeBBox (sample_wrapper ''use'' ''1'') sample_doc ?b =
     (None, \<lparr>bbox_w = Num ''3em'', bbox_h = Num ''.8em'', bbox_d = Num ''.2em''\<rparr>, sample_doc)"
    by (simp add: sample_wrapper_fields(3,4) sample_attr [unfolded One_nat_def] splitHDW_sample)
  have k: "getAttribute (adaptor (sample_wrapper ''ignore'' ''1''))
       (snd (clone (adaptor (sample_wrapper ''ignore'' ''1'')) sample_doc (node_html (sample_wrapper ''ignore'' ''1''))))
       (fst (clone (adaptor (sample_wrapper ''ignore'' ''1'')) sample_doc (node_html (sample_wrapper ''ignore'' ''1''))))
       ''data-mjx-hdw'' =
     getAttribute (adaptor (sample_wrapper ''ignore'' ''1'')) sample_doc
       (node_html (sample_wrapper ''ignore'' ''1'')) ''data-mjx-hdw''"
    using sample_copy_attr [of "''ignore''" "''1''"] sample_attr [of "''ignore''" "''1''"]
    by (simp add: sample_wrapper_fields sample_clone_1 [unfolded One_nat_def])
  from computeBBox_source [of "sample_wrapper ''ignore'' ''1''" sample_doc ?b] k
  have 2: "fst (computeBBox (sample_wrapper ''ignore'' ''1'') sample_doc ?b) = None \<and>
    fst (snd (computeBBox (sample_wrapper ''ignore'' ''1'') sample_doc ?b)) =
     \<lparr>bbox_w = Num ''measured w'', bbox_h = Num ''measured h'', bbox_d = Num ''measured d''\<rparr>"
    by (auto simp: sample_wrapper_fields m sample_measureXMLnode_def split: prod.splits sum.splits)
  from 1 2 sample_attr [of "''use''" "''1''"] show ?thesis
    by (simp add: sample_wrapper_fields)
qed

text \<open>
  C2. For every class \<open>C\<close> that the registry literal lists, \<open>MML[C.prototype.kind]\<close> is
  \<open>C\<close>; among them are the entries of \<open>MmlMi\<close>, \<open>MmlMo\<close>, \<open>MmlMfrac\<close>, \<open>MmlMtable\<close>,
  \<open>TextNode\<close> and \<open>XMLNode\<close>. The kinds are defined with the classes, outside the
  sources at hand: the statement is for kinds that differ from class to class, as later
  entries of an object literal replace earlier ones with the same key. With the element
  names as kinds, the keys are \<open>'mi'\<close>, \<open>'mo'\<close>, \<open>'mfrac'\<close> and \<open>'mtable'\<close>.
\<close>

theorem MML_registry:
  assumes "distinct (map fst (MML_literal k))"
  shows "(\<forall>C \<in> snd ` set (MML_literal k). MML k (k C) = Some C) \<and>
    MML k (k MmlMi) = Some MmlMi \<and> MML k (k MmlMo) = Some MmlMo \<and>
    MML k (k MmlMfrac) = Some MmlMfrac \<and> MML k (k MmlMtable) = Some MmlMtable \<and>
    MML k (k TextNode) = Some TextNode \<and> MML k (k XMLNode) = Some XMLNode"
  using object_literal_entry [OF assms MML_literal_lists] by (simp add: MML_def)

theorem MML_registry_witness:
  "distinct (map fst (MML_literal element_kind)) \<and>
   MML element_kind ''mi'' = Some MmlMi \<and> MML element_kind ''mo'' = Some MmlMo \<and>
   MML element_kind ''mfrac'' = Some MmlMfrac \<and> MML element_kind ''mtable'' = Some MmlMtable \<and>
   MML element_kind ''text'' = Some TextNode \<and> MML element_kind ''XML'' = Some XMLNode"
proof -
  have d: "distinct (map fst (MML_literal element_kind))"
    by (simp add: MML_literal_def)
  from MML_registry [OF d] d show ?thesis by simp
qed

text \<open>
  C3. For every html tree and all strings \<open>use\<close> and \<open>force\<close>, \<open>getHDW(html, use, force)\<close>
  returns the value of the tree's \<open>data-mjx-hdw\<close> attribute if and only if that value is
  not empty and the option \<open>htmlHDW\<close> is \<open>use\<close> or \<open>force\<close>; in every other case it
  returns \<open>null\<close>; and the DOM after the call is the DOM before it.
\<close>

theorem getHDW_result:
  "(fst (getHDW this doc n use (Some force)) = Some s \<longleftrightarrow>
      getAttribute (adaptor this) doc n ''data-mjx-hdw'' = Some s \<and> s \<noteq> [] \<and>
      (htmlHDW (jax this) = use \<or> htmlHDW (jax this) = force)) \<and>
   (fst (getHDW this doc n use (Some force)) = None \<longleftrightarrow>
      \<not> (\<exists>t. getAttribute (adaptor this) doc n ''data-mjx-hdw'' = Some t \<and> t \<noteq> [] \<and>
          (htmlHDW (jax this) = use \<or> htmlHDW (jax this) = force))) \<and>
   snd (getHDW this doc n use (Some force)) = doc"
  by (auto simp: getHDW_def Let_def truthy_def split: option.splits)

text \<open>
  C4. When the option \<open>htmlHDW\<close> is \<open>'force'\<close> and the html argument has a non-empty
  \<open>data-mjx-hdw\<close> attribute with values \<open>h\<close>, \<open>d\<close>, \<open>w\<close> as \<open>splitHDW\<close> parses them,
  \<open>addHDW(html, styles)\<close> sets \<open>styles.height\<close> to \<open>em(h + d)\<close>, \<open>styles.width\<close> to
  \<open>em(w)\<close>, \<open>styles['vertical-align']\<close> to \<open>em(-d)\<close> and \<open>styles.position\<close> to
  \<open>'relative'\<close>, and returns what \<open>this.html('mjx-html-holder', {}, [html])\<close> returns.
\<close>

theorem addHDW_force:
  assumes "htmlHDW (jax this) = ''force''"
    and "getAttribute (adaptor this) doc n ''data-mjx-hdw'' = Some s" and "s \<noteq> []"
    and "splitHDW this s = \<lparr>ub_w = Num w, ub_h = Num h, ub_d = Num d\<rparr>"
  shows "addHDW this doc n st =
    (Inr (fst (html this doc ''mjx-html-holder'' empty_def [n])),
     st(''height'' \<mapsto> em this (add (runtime this) h d),
        ''width'' \<mapsto> em this w,
        ''vertical-align'' \<mapsto> em this (neg (runtime this) d),
        ''position'' \<mapsto> ''relative''),
     snd (html this doc ''mjx-html-holder'' empty_def [n]))"
  using assms
  by (simp add: addHDW_def getHDW_def Let_def truthy_def call_em_def js_plus_def js_uminus_def
      split: prod.splits)

theorem addHDW_force_witness:
  "htmlHDW (jax (sample_wrapper ''force'' ''1'')) = ''force'' \<and>
   getAttribute (adaptor (sample_wrapper ''force'' ''1'')) sample_doc 1 ''data-mjx-hdw'' =
     Some ''.8em .2em 3em'' \<and>
   splitHDW (sample_wrapper ''force'' ''1'') ''.8em .2em 3em'' =
     \<lparr>ub_w = Num ''3em'', ub_h = Num ''.8em'', ub_d = Num ''.2em''\<rparr> \<and>
   fst (addHDW (sample_wrapper ''force'' ''1'') sample_doc 1 Map.empty) = Inr 3 \<and>
   map (fst (snd (addHDW (sample_wrapper ''force'' ''1'') sample_doc 1 Map.empty)))
     [''height'', ''width'', ''vertical-align'', ''position'', ''font-size''] =
     [Some ''em(.8em + .2em)'', Some ''em(3em)'', Some ''em(-.2em)'', Some ''relative'', None]"
proof -
  have o: "htmlHDW (jax (sample_wrapper ''force'' ''1'')) = ''force''"
    by (simp add: sample_wrapper_def)
  have h: "fst (html (sample_wrapper ''force'' ''1'') sample_doc ''mjx-html-holder'' empty_def [1]) = 3"
    by (simp add: sample_wrapper_def sample_html_def sample_doc_def)
  from addHDW_force [OF o sample_attr _ splitHDW_sample, of Map.empty] o sample_attr h
    splitHDW_sample [of "''force''" "''1''"]
  show ?thesis
    by (simp add: sample_wrapper_def sample_runtime_def sample_em_def)
qed

text \<open>
  C5. The claim is that a component missing from the \<open>data-mjx-hdw\<close> string counts as
  \<open>'0'\<close>. The code replaces a component that is the empty string, but \<open>map\<close> keeps the
  length of the array: with two components, \<open>w\<close> is \<open>undefined\<close>.
\<close>

theorem splitHDW_two_components:
  "splitHDW (sample_wrapper ''use'' ''1'') ''1em 2em'' =
     \<lparr>ub_w = Undefined, ub_h = Num ''1em'', ub_d = Num ''2em''\<rparr>"
  by (simp add: splitHDW_def sample_wrapper_def sample_runtime_def split_whitespace_def
      is_space_def element_at_def)

text \<open>
  C6. Whenever the option \<open>htmlHDW\<close> is not \<open>'force'\<close>, or the html argument has no
  non-empty \<open>data-mjx-hdw\<close> attribute, \<open>addHDW(html, styles)\<close> returns its html argument,
  creates no element (the DOM is as before), and leaves \<open>styles\<close> as it was.
\<close>

theorem addHDW_unchanged:
  assumes "htmlHDW (jax this) \<noteq> ''force'' \<or>
    \<not> (\<exists>s. getAttribute (adaptor this) doc n ''data-mjx-hdw'' = Some s \<and> s \<noteq> [])"
  shows "addHDW this doc n st = (Inr n, st, doc)"
  using assms
  by (auto simp: addHDW_def getHDW_def Let_def truthy_def split: prod.splits option.splits)

theorem addHDW_unchanged_witness:
  "htmlHDW (jax (sample_wrapper ''use'' ''1'')) \<noteq> ''force'' \<and>
   addHDW (sample_wrapper ''use'' ''1'') sample_doc 1 Map.empty = (Inr 1, Map.empty, sample_doc) \<and>
   getAttribute (adaptor (sample_wrapper ''force'' ''1'')) sample_doc 2 ''data-mjx-hdw'' = None \<and>
   addHDW (sample_wrapper ''force'' ''1'') sample_doc 2 Map.empty = (Inr 2, Map.empty, sample_doc)"
proof -
  have o: "htmlHDW (jax (sample_wrapper ''use'' ''1'')) \<noteq> ''force''"
    by (simp add: sample_wrapper_def)
  then have 1: "htmlHDW (jax (sample_wrapper ''use'' ''1'')) \<noteq> ''force'' \<or>
    \<not> (\<exists>s. getAttribute (adaptor (sample_wrapper ''use'' ''1'')) sample_doc 1 ''data-mjx-hdw'' = Some s \<and> s \<noteq> [])"
    by simp
  have a: "getAttribute (adaptor (sample_wrapper ''force'' ''1'')) sample_doc 2 ''data-mjx-hdw'' = None"
    by (simp add: sample_wrapper_def sample_adaptor_def sample_getAttribute_def sample_doc_def
        element_of_def)
  then have 2: "htmlHDW (jax (sample_wrapper ''force'' ''1'')) \<noteq> ''force'' \<or>
    \<not> (\<exists>s. getAttribute (adaptor (sample_wrapper ''force'' ''1'')) sample_doc 2 ''data-mjx-hdw'' = Some s \<and> s \<noteq> [])"
    by simp
  from addHDW_unchanged [OF 1] addHDW_unchanged [OF 2] o a show ?thesis by simp
qed



text \<open>
  C8, as amended. For every input whose prototype chain can be read (every value but an
  object such as a revoked \<open>Proxy\<close>), \<open>HandlesDocument\<close> never throws, also for a string
  that the parser throws on, and it returns true if and only if the input (for a string
  that parses, the parsed document) is an instance of the document constructor, of the
  window's \<open>HTMLElement\<close> or of its \<open>DocumentFragment\<close>.
\<close>

theorem HandlesDocument_total:
  assumes "HTMLELEMENT m = Some he" and "FRAGMENT m = Some fr"
    and "\<forall>e. parsed m v \<noteq> Unreadable e"
  shows "HandlesDocument m v =
    Inr (\<exists>cs. parsed m v = Object cs \<and>
              (DOCUMENT m \<in> set cs \<or> he \<in> set cs \<or> fr \<in> set cs))"
  using assms
  by (cases "parsed m v") (auto simp: HandlesDocument_def instanceof_def Let_def split: bool.splits)

theorem HandlesDocument_total_witness:
  "HTMLELEMENT sample_module = Some ''HTMLElement'' \<and>
   FRAGMENT sample_module = Some ''DocumentFragment'' \<and>
   HandlesDocument sample_module (String ''<p>x</p>'') = Inr True \<and>
   HandlesDocument sample_module (String []) = Inr False \<and>
   HandlesDocument sample_module Primitive = Inr False \<and>
   HandlesDocument sample_module (Object [''HTMLDivElement'', ''HTMLElement'', ''Element'', ''Node'', ''Object'']) = Inr True"
proof -
  have e: "HTMLELEMENT sample_module = Some ''HTMLElement''"
    and f: "FRAGMENT sample_module = Some ''DocumentFragment''"
    by (simp_all add: sample_module_def)
  note t = HandlesDocument_total [OF e f]
  have "HandlesDocument sample_module (String ''<p>x</p>'') = Inr True"
    using t [of "String ''<p>x</p>''"] by (simp add: parsed_def sample_module_def)
  moreover have "HandlesDocument sample_module (String []) = Inr False"
    using t [of "String []"] by (simp add: parsed_def sample_module_def)
  moreover have "HandlesDocument sample_module Primitive = Inr False"
    using t [of Primitive] by (simp add: parsed_def)
  moreover have "HandlesDocument sample_module
      (Object [''HTMLDivElement'', ''HTMLElement'', ''Element'', ''Node'', ''Object'']) = Inr True"
    using t [of "Object [''HTMLDivElement'', ''HTMLElement'', ''Element'', ''Node'', ''Object'']"]
    by (simp add: parsed_def sample_module_def)
  ultimately show ?thesis using e f by simp
qed

text \<open>
  C8, as stated, fails: for a revoked \<open>Proxy\<close> the first \<open>instanceof\<close> throws a
  \<open>TypeError\<close>, in a window that has both constructors.
\<close>

theorem HandlesDocument_throws:
  "HandlesDocument sample_module (Unreadable TypeError) = Inl TypeError"
  by (simp add: HandlesDocument_def instanceof_def parsed_def sample_module_def)

text \<open>
  C9. \<open>getHTML\<close> works on \<open>adaptor.clone\<close> of the HTML that the \<open>HtmlNode\<close> holds: with a
  \<open>clone\<close> and an element creation that keep to their contracts, every node that was in
  the DOM before the call, and so the tree that the \<open>HtmlNode\<close> holds, is after the call
  what it was before, whether the call returns or throws.
\<close>

theorem getHTML_frame:
  assumes c: "clone_frame (clone (adaptor this))" and h: "html_frame (html this)"
  shows "take (length doc) (snd (getHTML this doc)) = doc \<and>
    (\<forall>n < length doc. snd (getHTML this doc) ! n = doc ! n)"
proof -
  obtain copy doc1 where cl: "clone (adaptor this) doc (node_html this) = (copy, doc1)"
    by (cases "clone (adaptor this) doc (node_html this)")
  obtain added styles1 doc2 where ad: "addHDW this doc1 copy Map.empty = (added, styles1, doc2)"
    by (cases "addHDW this doc1 copy Map.empty")
  note c1 = clone_frameD [OF c cl]
  have t: "take (length doc) (snd (getHTML this doc)) = doc"
  proof (cases added)
    case (Inl e)
    with addHDW_cases [OF ad] have "doc2 = doc1" by auto
    moreover have "snd (getHTML this doc) = doc2"
      using cl ad Inl by (simp add: getHTML_def getHTML_call_def)
    ultimately show ?thesis using c1(4) by simp
  next
    case (Inr html1)
    from addHDW_cases [OF ad] Inr have
      "(html1 = copy \<and> doc2 = doc1) \<or> html this doc1 ''mjx-html-holder'' empty_def [copy] = (html1, doc2)"
      by auto
    then have inv: "take (length doc) doc2 = doc \<and> length doc \<le> html1 \<and> html1 < length doc2 \<and>
      parentNode (doc2 ! html1) = None"
    proof
      assume "html1 = copy \<and> doc2 = doc1"
      with c1 show ?thesis by simp
    next
      assume "html this doc1 ''mjx-html-holder'' empty_def [copy] = (html1, doc2)"
      from html_frame_single [OF h this c1(4) c1(1) c1(2) c1(3)] show ?thesis .
    qed
    obtain df where call: "getHTML_call this doc = (Inr (df, [html1]), doc2)"
      using cl ad Inr by (simp add: getHTML_call_def Let_def)
    obtain r doc3 where fin: "html this doc2 ''mjx-html'' df [html1] = (r, doc3)"
      by (cases "html this doc2 ''mjx-html'' df [html1]")
    from html_frame_single [OF h fin, of doc] inv have "take (length doc) doc3 = doc" by simp
    moreover have "snd (getHTML this doc) = doc3"
      using call fin by (simp add: getHTML_def)
    ultimately show ?thesis by simp
  qed
  have "snd (getHTML this doc) ! n = doc ! n" if "n < length doc" for n
  proof -
    from that have "take (length doc) (snd (getHTML this doc)) ! n = snd (getHTML this doc) ! n"
      by simp
    with t show ?thesis by simp
  qed
  with t show ?thesis by simp
qed

theorem getHTML_frame_witness:
  "clone_frame (clone (adaptor (sample_wrapper ''force'' ''2''))) \<and>
   html_frame (html (sample_wrapper ''force'' ''2'')) \<and>
   take (length sample_doc) (snd (getHTML (sample_wrapper ''force'' ''2'') sample_doc)) = sample_doc \<and>
   snd (getHTML (sample_wrapper ''force'' ''2'') sample_doc) ! node_html (sample_wrapper ''force'' ''2'') =
     sample_doc ! node_html (sample_wrapper ''force'' ''2'') \<and>
   take (length short_doc) (snd (getHTML (sample_wrapper ''force'' ''2'') short_doc)) = short_doc"
proof -
  have c: "clone_frame (clone (adaptor (sample_wrapper ''force'' ''2'')))"
    by (simp add: sample_wrapper_def sample_adaptor_def sample_clone_frame)
  have h: "html_frame (html (sample_wrapper ''force'' ''2''))"
    by (simp add: sample_wrapper_def sample_html_frame)
  have n: "node_html (sample_wrapper ''force'' ''2'') < length sample_doc"
    by (simp add: sample_wrapper_def sample_doc_def)
  from getHTML_frame [OF c h, of sample_doc] getHTML_frame [OF c h, of short_doc] c h n
  show ?thesis by blast
qed

text \<open>
  C10. The overrides \<open>getStyles\<close>, \<open>getScale\<close> and \<open>getVariant\<close> do nothing: each
  returns \<open>undefined\<close> and leaves the wrapper as it was.
\<close>

theorem overrides_are_no_ops:
  "getStyles this = (Undefined, this) \<and> getScale this = (Undefined, this) \<and>
   getVariant this = (Undefined, this)"
  by (simp add: getStyles_def getScale_def getVariant_def)

end
